theory Spec2Isabelle
  imports Main
begin

section \<open>The Oxford-IIIT Pet dataset pipeline (oxford\_iiit\_pet.py)\<close>

text \<open>
  A shallow embedding of \<^verbatim>\<open>OxfordIITPet\<close> in
  \<^verbatim>\<open>torchvision/prototype/datasets/_builtin/oxford_iiit_pet.py\<close>.
  A Python exception is a value of type \<open>error\<close>; a computation that may raise
  returns \<open>error + 'a\<close> with \<open>Inl\<close> for the exception. A string is a list of
  characters with code points below 256; the text of a file is its bytes, which is
  what decoding gives for an ASCII file.
\<close>

subsection \<open>Python values\<close>

datatype error = ValueError | TypeError | IndexError | KeyError | BufferError | CSVError

text \<open>A raw entry is the pair \<^verbatim>\<open>(path, buffer)\<close>; the buffer is the file's bytes.\<close>

type_synonym buffer = string
type_synonym entry = "string \<times> buffer"

text \<open>\<^verbatim>\<open>str.startswith\<close>, \<^verbatim>\<open>str.endswith\<close>.\<close>

definition startswith :: "string \<Rightarrow> string \<Rightarrow> bool" where
  "startswith s prefix = (take (length prefix) s = prefix)"

definition endswith :: "string \<Rightarrow> string \<Rightarrow> bool" where
  "endswith s suffix = (length suffix \<le> length s \<and> drop (length s - length suffix) s = suffix)"

text \<open>\<^verbatim>\<open>str.split(sep)\<close> for a one-character separator: never empty.\<close>

fun split_sep :: "char \<Rightarrow> string \<Rightarrow> string list" where
  "split_sep sep [] = [[]]"
| "split_sep sep (c # cs) =
     (if c = sep then [] # split_sep sep cs
      else (case split_sep sep cs of
              [] \<Rightarrow> [[c]]
            | w # ws \<Rightarrow> (c # w) # ws))"

text \<open>
  \<^verbatim>\<open>str.rfind(ch)\<close>: the index of the last occurrence, \<open>-1\<close> when there is none.
\<close>

fun rfind :: "char \<Rightarrow> string \<Rightarrow> int" where
  "rfind ch [] = - 1"
| "rfind ch (c # cs) =
     (let r = rfind ch cs
      in if 0 \<le> r then r + 1 else if c = ch then 0 else - 1)"

subsection \<open>pathlib\<close>

text \<open>
  \<^verbatim>\<open>pathlib.Path(s)\<close> on a POSIX system (Python up to 3.13). The parts of the path
  after its root are the pieces between slashes, without the empty pieces and the
  pieces \<^verbatim>\<open>.\<close>; \<^verbatim>\<open>name\<close>, \<^verbatim>\<open>parent.name\<close>, \<^verbatim>\<open>suffix\<close> and
  \<^verbatim>\<open>stem\<close> do not depend on the root.
\<close>

definition path_parts :: "string \<Rightarrow> string list" where
  "path_parts p = filter (\<lambda>c. c \<noteq> [] \<and> c \<noteq> ''.'') (split_sep (CHR ''/'') p)"

text \<open>\<^verbatim>\<open>Path(p).name\<close>: the last part, the empty string when there is none.\<close>

definition path_name :: "string \<Rightarrow> string" where
  "path_name p = (case rev (path_parts p) of [] \<Rightarrow> [] | n # _ \<Rightarrow> n)"

text \<open>
  \<^verbatim>\<open>Path(p).parent.name\<close>: the part before the last one, the empty string when the
  path has fewer than two parts.
\<close>

definition path_parent_name :: "string \<Rightarrow> string" where
  "path_parent_name p = (case rev (path_parts p) of _ # d # _ \<Rightarrow> d | _ \<Rightarrow> [])"

text \<open>
  \<^verbatim>\<open>suffix\<close> and \<^verbatim>\<open>stem\<close> of a name:
  \<^verbatim>\<open>i = name.rfind('.')\<close>; when \<^verbatim>\<open>0 < i < len(name) - 1\<close> the suffix is
  \<^verbatim>\<open>name[i:]\<close> and the stem \<^verbatim>\<open>name[:i]\<close>, otherwise the suffix is empty and the
  stem is the name.
\<close>

definition name_suffix :: "string \<Rightarrow> string" where
  "name_suffix n =
     (let i = rfind (CHR ''.'') n
      in if 0 < i \<and> i < int (length n) - 1 then drop (nat i) n else [])"

definition name_stem :: "string \<Rightarrow> string" where
  "name_stem n =
     (let i = rfind (CHR ''.'') n
      in if 0 < i \<and> i < int (length n) - 1 then take (nat i) n else n)"

definition path_suffix :: "string \<Rightarrow> string" where
  "path_suffix p = name_suffix (path_name p)"

definition path_stem :: "string \<Rightarrow> string" where
  "path_stem p = name_stem (path_name p)"

subsection \<open>Classifier and filters\<close>

text \<open>
  \<^verbatim>\<open>_classify_anns\<close>: \<^verbatim>\<open>{"annotations": 0, "trimaps": 1}.get(Path(data[0]).parent.name)\<close>.
\<close>

definition classify_anns :: "entry \<Rightarrow> nat option" where
  "classify_anns data =
     map_of [(''annotations'', 0), (''trimaps'', 1)] (path_parent_name (fst data))"

text \<open>\<^verbatim>\<open>_filter_images\<close>: \<^verbatim>\<open>Path(data[0]).suffix == ".jpg"\<close>.\<close>

definition filter_images :: "entry \<Rightarrow> bool" where
  "filter_images data = (path_suffix (fst data) = ''.jpg'')"

text \<open>\<^verbatim>\<open>_filter_segmentations\<close>: \<^verbatim>\<open>not Path(data[0]).name.startswith(".")\<close>.\<close>

definition filter_segmentations :: "entry \<Rightarrow> bool" where
  "filter_segmentations data = (\<not> startswith (path_name (fst data)) ''.'')"

subsection \<open>Integers and indexing\<close>

text \<open>
  \<^verbatim>\<open>int(s)\<close> for a string: surrounding white space is stripped, one sign is
  allowed, and the rest is a non-empty run of decimal digits in which single underscores
  may separate digits; anything else raises \<^verbatim>\<open>ValueError\<close>. The white space of
  \<^verbatim>\<open>int\<close> below code point 256 is tab, line feed, vertical tab, form feed, carriage
  return, space, U+0085 and U+00A0; the separators U+001C to U+001F are not stripped.
\<close>

definition is_space :: "char \<Rightarrow> bool" where
  "is_space c = (c \<in> set [CHR 0x09, CHR 0x0A, CHR 0x0B, CHR 0x0C, CHR 0x0D, CHR '' '',
                           CHR 0x85, CHR 0xA0])"

definition strip :: "string \<Rightarrow> string" where
  "strip s = rev (dropWhile is_space (rev (dropWhile is_space s)))"

definition digit_val :: "char \<Rightarrow> int option" where
  "digit_val c = map_of (zip ''0123456789'' [0, 1, 2, 3, 4, 5, 6, 7, 8, 9]) c"

text \<open>The digits after the first one; \<open>acc\<close> is the value read so far.\<close>

fun more_digits :: "int \<Rightarrow> string \<Rightarrow> int option" where
  "more_digits acc [] = Some acc"
| "more_digits acc [c] =
     (case digit_val c of None \<Rightarrow> None | Some v \<Rightarrow> Some (10 * acc + v))"
| "more_digits acc (c # d # ds) =
     (if c = CHR ''_''
      then (case digit_val d of None \<Rightarrow> None | Some v \<Rightarrow> more_digits (10 * acc + v) ds)
      else (case digit_val c of None \<Rightarrow> None | Some v \<Rightarrow> more_digits (10 * acc + v) (d # ds)))"

definition digits :: "string \<Rightarrow> int option" where
  "digits s =
     (case s of
        [] \<Rightarrow> None
      | c # cs \<Rightarrow> (case digit_val c of None \<Rightarrow> None | Some v \<Rightarrow> more_digits v cs))"

definition py_int :: "string \<Rightarrow> error + int" where
  "py_int s =
     (let t = strip s;
          r = (case t of
                 [] \<Rightarrow> None
               | c # cs \<Rightarrow>
                   if c = CHR ''-'' then map_option uminus (digits cs)
                   else if c = CHR ''+'' then digits cs
                   else digits t)
      in case r of None \<Rightarrow> Inl ValueError | Some v \<Rightarrow> Inr v)"

text \<open>
  \<^verbatim>\<open>xs[i]\<close> on a list or tuple: an index from \<open>-len\<close> up to \<open>-1\<close> counts from the
  end, an index outside \<open>-len .. len - 1\<close> raises \<^verbatim>\<open>IndexError\<close>.
\<close>

definition list_getitem :: "'a list \<Rightarrow> int \<Rightarrow> error + 'a" where
  "list_getitem xs i =
     (if 0 \<le> i \<and> i < int (length xs) then Inr (xs ! nat i)
      else if - int (length xs) \<le> i \<and> i < 0 then Inr (xs ! nat (int (length xs) + i))
      else Inl IndexError)"

text \<open>\<^verbatim>\<open>d[key]\<close> on a dictionary: a missing key raises \<^verbatim>\<open>KeyError\<close>.\<close>

definition dict_getitem :: "('k \<rightharpoonup> 'v) \<Rightarrow> 'k \<Rightarrow> error + 'v" where
  "dict_getitem d k = (case d k of None \<Rightarrow> Inl KeyError | Some v \<Rightarrow> Inr v)"

subsection \<open>Label decoding and sample assembly\<close>

text \<open>
  One record of the classification list is the dictionary that \<^verbatim>\<open>csv.DictReader\<close>
  builds: every field name is a key, and its value is a string or \<^verbatim>\<open>None\<close>. The
  entry that the reader adds under the key \<^verbatim>\<open>None\<close> for the fields after the last
  name is never read by this file and is left out. The category table
  \<^verbatim>\<open>self.info.categories\<close> is read from a file that is not part of the sources; it
  is the parameter \<open>categories\<close> of every function that reads it.
\<close>

type_synonym row = "string \<rightharpoonup> string option"

text \<open>\<^verbatim>\<open>int(x)\<close> for a string or \<^verbatim>\<open>None\<close>: \<^verbatim>\<open>int(None)\<close> raises \<^verbatim>\<open>TypeError\<close>.\<close>

definition int_of_value :: "string option \<Rightarrow> error + int" where
  "int_of_value x = (case x of None \<Rightarrow> Inl TypeError | Some s \<Rightarrow> py_int s)"

text \<open>
  Modelled from the spec: \<^verbatim>\<open>torchvision.prototype.features.Label\<close> is missing from the
  sources; a Label is the pair of its index and its category name
  (``Label: {index: integer, category: string}'').
\<close>

record Label =
  index :: int
  category :: string

text \<open>
  The image and the segmentation of a sample: the raw buffer when no decoder is given,
  the decoder's result otherwise.
\<close>

datatype 'tensor payload = Raw buffer | Decoded 'tensor

record 'tensor Sample =
  label :: Label
  species :: string
  segmentation_path :: string
  segmentation :: "'tensor payload"
  image_path :: string
  image :: "'tensor payload"

text \<open>
  \<^verbatim>\<open>_decode_classification_data\<close>: the dictionary with the keys \<^verbatim>\<open>label\<close> and
  \<^verbatim>\<open>species\<close>, here as a pair.
\<close>

definition decode_classification_data :: "string list \<Rightarrow> row \<Rightarrow> error + (Label \<times> string)" where
  "decode_classification_data categories data =
     (case dict_getitem data ''label'' of
        Inl e \<Rightarrow> Inl e
      | Inr l \<Rightarrow>
     (case int_of_value l of
        Inl e \<Rightarrow> Inl e
      | Inr v \<Rightarrow>
     (let label_idx = v - 1
      in case list_getitem categories label_idx of
        Inl e \<Rightarrow> Inl e
      | Inr c \<Rightarrow>
     (case dict_getitem data ''species'' of
        Inl e \<Rightarrow> Inl e
      | Inr s \<Rightarrow>
          Inr (\<lparr>index = label_idx, category = c\<rparr>,
               if s = Some ''1'' then ''cat'' else ''dog'')))))"

text \<open>
  \<^verbatim>\<open>decoder(buffer) if decoder else buffer\<close>; the decoder is any callable and may raise.
\<close>

definition apply_decoder :: "(buffer \<Rightarrow> error + 'tensor) option \<Rightarrow> buffer \<Rightarrow> error + 'tensor payload" where
  "apply_decoder decoder buf =
     (case decoder of
        None \<Rightarrow> Inr (Raw buf)
      | Some f \<Rightarrow> (case f buf of Inl e \<Rightarrow> Inl e | Inr t \<Rightarrow> Inr (Decoded t)))"

text \<open>
  \<^verbatim>\<open>_collate_and_decode_sample\<close>. The arguments of \<^verbatim>\<open>dict(...)\<close> are evaluated
  from left to right: the classification data, the segmentation, the image.
\<close>

definition collate_and_decode_sample ::
  "string list \<Rightarrow> (buffer \<Rightarrow> error + 'tensor) option \<Rightarrow> (row \<times> entry) \<times> entry
     \<Rightarrow> error + 'tensor Sample" where
  "collate_and_decode_sample categories decoder data =
     (case data of
        ((classification_data, (seg_path, segmentation_buffer)),
         (img_path, image_buffer)) \<Rightarrow>
     (case decode_classification_data categories classification_data of
        Inl e \<Rightarrow> Inl e
      | Inr d \<Rightarrow>
     (case apply_decoder decoder segmentation_buffer of
        Inl e \<Rightarrow> Inl e
      | Inr seg \<Rightarrow>
     (case apply_decoder decoder image_buffer of
        Inl e \<Rightarrow> Inl e
      | Inr img \<Rightarrow>
          Inr \<lparr>label = fst d, species = snd d,
               segmentation_path = seg_path, segmentation = seg,
               image_path = img_path, image = img\<rparr>))))"

subsection \<open>Data pipes\<close>

text \<open>
  The pipeline primitives come from libraries that are not part of the sources
  (\<^verbatim>\<open>torchdata.datapipes.iter\<close> and \<^verbatim>\<open>torchvision.prototype.datasets.utils._internal\<close>);
  each is modelled from its call in \<^verbatim>\<open>_make_datapipe\<close> and from what the library
  does. The two raw sequences of entries are lists. A data pipe that can raise is the
  trace of one iteration: the items in the order they are yielded, ended by \<open>Stop\<close>
  when the iteration ends and by \<open>Raise e\<close> when it raises \<open>e\<close>. The pipes are
  lazy: an item is drawn from a pipe only when the consumer asks for it, so that the
  items yielded before an exception are part of the trace.
\<close>

datatype 'a dp = Stop | Raise error | Yield 'a "'a dp"

fun of_list :: "'a list \<Rightarrow> 'a dp" where
  "of_list [] = Stop"
| "of_list (x # xs) = Yield x (of_list xs)"

text \<open>The items an iteration yields, and the exception that ends it, if any.\<close>

fun yielded :: "'a dp \<Rightarrow> 'a list" where
  "yielded Stop = []"
| "yielded (Raise e) = []"
| "yielded (Yield x dp) = x # yielded dp"

fun raised :: "'a dp \<Rightarrow> error option" where
  "raised Stop = None"
| "raised (Raise e) = Some e"
| "raised (Yield x dp) = raised dp"

text \<open>One pipe after the other; an exception of the first ends the iteration.\<close>

fun chain :: "'a dp \<Rightarrow> 'a dp \<Rightarrow> 'a dp" where
  "chain Stop dp2 = dp2"
| "chain (Raise e) dp2 = Raise e"
| "chain (Yield x dp1) dp2 = Yield x (chain dp1 dp2)"

text \<open>
  \<^verbatim>\<open>Mapper\<close> of torchdata: the function is applied to each item as it is drawn; its
  exception ends the iteration.
\<close>

fun Mapper :: "'a dp \<Rightarrow> ('a \<Rightarrow> error + 'b) \<Rightarrow> 'b dp" where
  "Mapper Stop fn = Stop"
| "Mapper (Raise e) fn = Raise e"
| "Mapper (Yield x dp) fn =
     (case fn x of Inl e \<Rightarrow> Raise e | Inr y \<Rightarrow> Yield y (Mapper dp fn))"

text \<open>
  Modelled from the spec: \<^verbatim>\<open>Filter\<close> of torchdata is missing from the sources. ``All
  filters are pure, stateless predicates over a single entry \<dots> evaluated independently
  per entry in a single forward pass'': the entries that satisfy the predicate are kept,
  in order.
\<close>

definition Filter :: "'a list \<Rightarrow> ('a \<Rightarrow> bool) \<Rightarrow> 'a list" where
  "Filter dp filter_fn = filter filter_fn dp"

text \<open>
  Modelled from the spec: \<^verbatim>\<open>Demultiplexer\<close> of torchdata is missing from the sources.
  ``Demultiplex: split one input sequence into multiple output sequences based on a
  per-entry classifier function''; with \<^verbatim>\<open>drop_none=True\<close> ``entries tagged "none" are
  dropped from the pipeline''. The call asks for two output sequences, the entries tagged
  0 and the entries tagged 1, each in the order of the input.
\<close>

definition Demultiplexer :: "'a list \<Rightarrow> ('a \<Rightarrow> nat option) \<Rightarrow> 'a list \<times> 'a list" where
  "Demultiplexer dp classifier_fn =
     (filter (\<lambda>data. classifier_fn data = Some 0) dp,
      filter (\<lambda>data. classifier_fn data = Some 1) dp)"

text \<open>
  Modelled from the spec: \<^verbatim>\<open>path_accessor\<close> of \<^verbatim>\<open>utils._internal\<close> is missing from
  the sources. \<^verbatim>\<open>path_accessor("stem")\<close> reads the join key of an entry, its ``path
  stem, i.e., filename without extension''; the attribute of the path is the parameter
  \<open>getter\<close>.
\<close>

definition path_accessor :: "(string \<Rightarrow> 'a) \<Rightarrow> entry \<Rightarrow> 'a" where
  "path_accessor getter data = getter (fst data)"

text \<open>
  Modelled from the spec: \<^verbatim>\<open>path_comparator\<close> of \<^verbatim>\<open>utils._internal\<close> is missing
  from the sources. \<^verbatim>\<open>path_comparator("name", v)\<close> is the split filter: ``keep
  classification-list entries whose filename exactly equals'' \<open>v\<close>.
\<close>

definition path_comparator :: "(string \<Rightarrow> 'a) \<Rightarrow> 'a \<Rightarrow> entry \<Rightarrow> bool" where
  "path_comparator getter v data = (path_accessor getter data = v)"

text \<open>
  Modelled from the spec: \<^verbatim>\<open>getitem\<close> of \<^verbatim>\<open>utils._internal\<close> is missing from the
  sources. \<^verbatim>\<open>getitem("image_id")\<close> reads the join key of a record, its ``image_id
  field'': the dictionary lookup \<^verbatim>\<open>obj["image_id"]\<close>.
\<close>

definition getitem :: "string \<Rightarrow> row \<Rightarrow> error + string option" where
  "getitem item obj = dict_getitem obj item"

text \<open>
  Modelled from the spec: \<^verbatim>\<open>getitem(0, "image_id")\<close>, the same missing function with
  two items, reads the ``nested image_id field of the classification side'' of a joined
  pair: \<^verbatim>\<open>obj[0]["image_id"]\<close>.
\<close>

definition getitem_0 :: "string \<Rightarrow> row \<times> 'a \<Rightarrow> error + string option" where
  "getitem_0 item obj = dict_getitem (fst obj) item"

text \<open>
  Modelled from the spec: \<^verbatim>\<open>hint_sharding\<close> of \<^verbatim>\<open>utils._internal\<close> is missing from
  the sources. ``Sharding/parallelization across worker processes \<dots> is the
  responsibility of the external pipeline-sharding collaborator, which this core signals
  to opt into but does not implement'': the hint leaves the sequence as it is.
\<close>

definition hint_sharding :: "'a dp \<Rightarrow> 'a dp" where
  "hint_sharding datapipe = datapipe"

text \<open>
  Modelled from the spec: \<^verbatim>\<open>hint_shuffling\<close> of \<^verbatim>\<open>utils._internal\<close> is missing
  from the sources. The spec names no shuffling among the stages of the pipeline and has
  a rebuild reproduce ``an identical ordered sequence of Samples'': the hint leaves the
  sequence as it is.
\<close>

definition hint_shuffling :: "'a dp \<Rightarrow> 'a dp" where
  "hint_shuffling datapipe = datapipe"

subsection \<open>The csv reader\<close>

text \<open>
  \<^verbatim>\<open>CSVDictParser\<close> of torchdata is not part of the sources. It iterates over the
  lines of each file, decodes them and hands them to \<^verbatim>\<open>csv.DictReader\<close> of the
  Python library with the arguments of the call. A line of a file ends after its line
  feed, which it keeps.
\<close>

fun readlines :: "string \<Rightarrow> string list" where
  "readlines [] = []"
| "readlines (c # cs) =
     (if c = CHR 0x0A then [c] # readlines cs
      else (case readlines cs of
              [] \<Rightarrow> [[c]]
            | l # ls \<Rightarrow> (c # l) # ls))"

text \<open>
  The reader of the \<^verbatim>\<open>csv\<close> module (\<^verbatim>\<open>_csv.c\<close> of CPython 3.11) with the default
  dialect but for the delimiter: double quote as the quote character, doubled quotes,
  no escape character, no skipping of initial space, not strict. The states that only an
  escape character reaches are left out. A field of more than \<open>field_limit\<close> characters
  raises \<^verbatim>\<open>csv.Error\<close>.
\<close>

datatype parser_state =
  START_RECORD | START_FIELD | IN_FIELD | IN_QUOTED_FIELD | QUOTE_IN_QUOTED_FIELD | EAT_CRNL

record reader =
  state :: parser_state
  parsed_fields :: "string list"
  field :: string

definition field_limit :: nat where
  "field_limit = 131072"

definition parse_reset :: reader where
  "parse_reset = \<lparr>state = START_RECORD, parsed_fields = [], field = []\<rparr>"

definition parse_save_field :: "reader \<Rightarrow> reader" where
  "parse_save_field self = self\<lparr>parsed_fields := parsed_fields self @ [field self], field := []\<rparr>"

definition parse_add_char :: "reader \<Rightarrow> char \<Rightarrow> error + reader" where
  "parse_add_char self c =
     (if field_limit \<le> length (field self) then Inl CSVError
      else Inr (self\<lparr>field := field self @ [c]\<rparr>))"

text \<open>The end of a field at a line feed, a carriage return or the end of the line.\<close>

definition end_of_line :: "reader \<Rightarrow> char option \<Rightarrow> reader" where
  "end_of_line self c =
     (parse_save_field self)\<lparr>state := (if c = None then START_RECORD else EAT_CRNL)\<rparr>"

definition is_newline :: "char option \<Rightarrow> bool" where
  "is_newline c = (c = Some (CHR 0x0A) \<or> c = Some (CHR 0x0D))"

text \<open>
  \<^verbatim>\<open>parse_process_char\<close>: one character of the line, or \<open>None\<close> at the end of the
  line. A record starts in \<open>START_RECORD\<close>; its first character, when it is no end of
  line, is handled as the start of a field.
\<close>

definition start_field :: "char \<Rightarrow> reader \<Rightarrow> char option \<Rightarrow> error + reader" where
  "start_field delimiter self c =
     (case c of
        None \<Rightarrow> Inr (end_of_line self c)
      | Some ch \<Rightarrow>
          if is_newline c then Inr (end_of_line self c)
          else if ch = CHR 0x22 then Inr (self\<lparr>state := IN_QUOTED_FIELD\<rparr>)
          else if ch = delimiter then Inr ((parse_save_field self)\<lparr>state := START_FIELD\<rparr>)
          else (case parse_add_char self ch of
                  Inl e \<Rightarrow> Inl e
                | Inr self' \<Rightarrow> Inr (self'\<lparr>state := IN_FIELD\<rparr>)))"

definition parse_process_char :: "char \<Rightarrow> reader \<Rightarrow> char option \<Rightarrow> error + reader" where
  "parse_process_char delimiter self c =
     (case state self of
        START_RECORD \<Rightarrow>
          if c = None then Inr self
          else if is_newline c then Inr (self\<lparr>state := EAT_CRNL\<rparr>)
          else start_field delimiter self c
      | START_FIELD \<Rightarrow> start_field delimiter self c
      | IN_FIELD \<Rightarrow>
          (case c of
             None \<Rightarrow> Inr (end_of_line self c)
           | Some ch \<Rightarrow>
               if is_newline c then Inr (end_of_line self c)
               else if ch = delimiter then Inr ((parse_save_field self)\<lparr>state := START_FIELD\<rparr>)
               else parse_add_char self ch)
      | IN_QUOTED_FIELD \<Rightarrow>
          (case c of
             None \<Rightarrow> Inr self
           | Some ch \<Rightarrow>
               if ch = CHR 0x22 then Inr (self\<lparr>state := QUOTE_IN_QUOTED_FIELD\<rparr>)
               else parse_add_char self ch)
      | QUOTE_IN_QUOTED_FIELD \<Rightarrow>
          (case c of
             None \<Rightarrow> Inr (end_of_line self c)
           | Some ch \<Rightarrow>
               if ch = CHR 0x22
               then (case parse_add_char self ch of
                       Inl e \<Rightarrow> Inl e
                     | Inr self' \<Rightarrow> Inr (self'\<lparr>state := IN_QUOTED_FIELD\<rparr>))
               else if ch = delimiter then Inr ((parse_save_field self)\<lparr>state := START_FIELD\<rparr>)
               else if is_newline c then Inr (end_of_line self c)
               else (case parse_add_char self ch of
                       Inl e \<Rightarrow> Inl e
                     | Inr self' \<Rightarrow> Inr (self'\<lparr>state := IN_FIELD\<rparr>)))
      | EAT_CRNL \<Rightarrow>
          if c = None then Inr (self\<lparr>state := START_RECORD\<rparr>)
          else if is_newline c then Inr self
          else Inl CSVError)"

text \<open>The characters of one line, then the end of the line.\<close>

fun parse_line :: "char \<Rightarrow> reader \<Rightarrow> string \<Rightarrow> error + reader" where
  "parse_line delimiter self [] = parse_process_char delimiter self None"
| "parse_line delimiter self (c # cs) =
     (case parse_process_char delimiter self (Some c) of
        Inl e \<Rightarrow> Inl e
      | Inr self' \<Rightarrow> parse_line delimiter self' cs)"

text \<open>
  \<^verbatim>\<open>Reader_iternext\<close>: lines are drawn until the reader is back at the start of a
  record, and the fields are the row. At the end of the lines, an open quoted field
  ends the last row.
\<close>

fun csv_reader :: "char \<Rightarrow> reader \<Rightarrow> string list \<Rightarrow> string list dp" where
  "csv_reader delimiter self [] =
     (if field self \<noteq> [] \<or> state self = IN_QUOTED_FIELD
      then Yield (parsed_fields (parse_save_field self)) Stop
      else Stop)"
| "csv_reader delimiter self (line # lines) =
     (case parse_line delimiter self line of
        Inl e \<Rightarrow> Raise e
      | Inr self' \<Rightarrow>
          if state self' = START_RECORD
          then Yield (parsed_fields self') (csv_reader delimiter parse_reset lines)
          else csv_reader delimiter self' lines)"

text \<open>
  \<^verbatim>\<open>csv.DictReader\<close> with given field names: an empty row is skipped; the fields
  are named in order, a name without a field gets \<^verbatim>\<open>None\<close>, and the fields after
  the last name are not named.
\<close>

definition row_dict :: "string list \<Rightarrow> string list \<Rightarrow> row" where
  "row_dict fieldnames r =
     map_of (rev (zip fieldnames (map Some r @ replicate (length fieldnames - length r) None)))"

fun DictReader :: "string list \<Rightarrow> string list dp \<Rightarrow> row dp" where
  "DictReader fieldnames Stop = Stop"
| "DictReader fieldnames (Raise e) = Raise e"
| "DictReader fieldnames (Yield r rows) =
     (if r = [] then DictReader fieldnames rows
      else Yield (row_dict fieldnames r) (DictReader fieldnames rows))"

fun CSVDictParser :: "entry list \<Rightarrow> string list \<Rightarrow> char \<Rightarrow> row dp" where
  "CSVDictParser [] fieldnames delimiter = Stop"
| "CSVDictParser (data # source_datapipe) fieldnames delimiter =
     chain (DictReader fieldnames (csv_reader delimiter parse_reset (readlines (snd data))))
       (CSVDictParser source_datapipe fieldnames delimiter)"

subsection \<open>The join\<close>

text \<open>
  \<^verbatim>\<open>IterKeyZipper\<close> of torchdata is not part of the sources. For each item of the
  source pipe it draws entries of the reference pipe into a buffer, keyed by their
  reference key, until the key of the item is in the buffer; it then takes that entry
  out of the buffer and yields the pair. It raises \<^verbatim>\<open>BufferError\<close> when the
  reference pipe ends before the key is found, and \<^verbatim>\<open>ValueError\<close> when it draws an
  entry whose key is already in the buffer. An entry stays in the buffer until an item
  asks for its key; with \<^verbatim>\<open>buffer_size=INFINITE_BUFFER_SIZE\<close> none is evicted. The
  reference pipes of this file are lists and cannot raise. A key is a string or
  \<^verbatim>\<open>None\<close>.
\<close>

fun fill_buffer ::
  "('b \<Rightarrow> 'k) \<Rightarrow> 'k \<Rightarrow> ('k \<times> 'b) list \<Rightarrow> 'b list \<Rightarrow> error + (('k \<times> 'b) list \<times> 'b list)" where
  "fill_buffer ref_key_fn key buffer [] =
     (if map_of buffer key \<noteq> None then Inr (buffer, []) else Inl BufferError)"
| "fill_buffer ref_key_fn key buffer (ref_data # ref_it) =
     (if map_of buffer key \<noteq> None then Inr (buffer, ref_data # ref_it)
      else if map_of buffer (ref_key_fn ref_data) \<noteq> None then Inl ValueError
      else fill_buffer ref_key_fn key (buffer @ [(ref_key_fn ref_data, ref_data)]) ref_it)"

fun zip_loop ::
  "('a \<Rightarrow> error + 'k) \<Rightarrow> ('b \<Rightarrow> 'k) \<Rightarrow> ('k \<times> 'b) list \<Rightarrow> 'b list \<Rightarrow> 'a dp \<Rightarrow> ('a \<times> 'b) dp" where
  "zip_loop key_fn ref_key_fn buffer ref_it Stop = Stop"
| "zip_loop key_fn ref_key_fn buffer ref_it (Raise e) = Raise e"
| "zip_loop key_fn ref_key_fn buffer ref_it (Yield data source_datapipe) =
     (case key_fn data of
        Inl e \<Rightarrow> Raise e
      | Inr key \<Rightarrow>
     (case fill_buffer ref_key_fn key buffer ref_it of
        Inl e \<Rightarrow> Raise e
      | Inr (buffer', ref_it') \<Rightarrow>
     (case map_of buffer' key of
        None \<Rightarrow> Raise KeyError
      | Some ref_data \<Rightarrow>
          Yield (data, ref_data)
            (zip_loop key_fn ref_key_fn (filter (\<lambda>p. fst p \<noteq> key) buffer') ref_it'
               source_datapipe))))"

definition IterKeyZipper ::
  "'a dp \<Rightarrow> 'b list \<Rightarrow> ('a \<Rightarrow> error + 'k) \<Rightarrow> ('b \<Rightarrow> 'k) \<Rightarrow> ('a \<times> 'b) dp" where
  "IterKeyZipper source_datapipe ref_datapipe key_fn ref_key_fn =
     zip_loop key_fn ref_key_fn [] ref_datapipe source_datapipe"

subsection \<open>The pipeline\<close>

record DatasetConfig =
  split :: string

text \<open>
  \<^verbatim>\<open>_make_datapipe\<close>. \<^verbatim>\<open>resource_dps\<close> is the pair of the image archive's and the
  annotation archive's entries. The key of a record is its \<^verbatim>\<open>image_id\<close>, a string or
  \<^verbatim>\<open>None\<close>; the key of an entry, the stem of its path, is a string.
\<close>

definition make_datapipe ::
  "string list \<Rightarrow> entry list \<times> entry list \<Rightarrow> DatasetConfig
     \<Rightarrow> (buffer \<Rightarrow> error + 'tensor) option \<Rightarrow> 'tensor Sample dp" where
  "make_datapipe categories resource_dps config decoder =
     (case resource_dps of (images_dp0, anns_dp0) \<Rightarrow>
     (let images_dp = Filter images_dp0 filter_images;
          demux = Demultiplexer anns_dp0 classify_anns;
          split_files = Filter (fst demux) (path_comparator path_name (split config @ ''.txt''));
          rows = hint_shuffling (hint_sharding
                   (CSVDictParser split_files [''image_id'', ''label'', ''species''] (CHR '' '')));
          segmentations_dp = Filter (snd demux) filter_segmentations;
          anns_dp = IterKeyZipper rows segmentations_dp
                      (getitem ''image_id'') (\<lambda>data. Some (path_accessor path_stem data));
          dp = IterKeyZipper anns_dp images_dp
                 (getitem_0 ''image_id'') (\<lambda>data. Some (path_accessor path_stem data))
      in Mapper dp (collate_and_decode_sample categories decoder)))"

subsection \<open>The stages of the pipeline, named\<close>

text \<open>
  The three streams that \<^verbatim>\<open>_make_datapipe\<close> joins, as functions of its inputs: the
  parsed classification list of the split, the segmentation entries and the image
  entries. They are used to state properties of the pipeline.
\<close>

definition classification_rows :: "DatasetConfig \<Rightarrow> entry list \<Rightarrow> row dp" where
  "classification_rows config anns =
     CSVDictParser
       (Filter (fst (Demultiplexer anns classify_anns))
          (path_comparator path_name (split config @ ''.txt'')))
       [''image_id'', ''label'', ''species''] (CHR '' '')"




text \<open>
  A plain line: ASCII characters other than the double quote, the carriage return, the
  line feed and the null character, and no more of them than a field may have.
\<close>

definition unquoted :: "char \<Rightarrow> bool" where
  "unquoted c = (c \<noteq> CHR 0x22 \<and> c \<noteq> CHR 0x0D \<and> c \<noteq> CHR 0x0A)"

definition plain :: "string \<Rightarrow> bool" where
  "plain l =
     (length l \<le> field_limit
      \<and> (\<forall>c \<in> set l. unquoted c \<and> c \<noteq> CHR 0x00 \<and> (of_char c :: nat) < 128))"

text \<open>The text of a list of lines, each ended by a line feed.\<close>

definition unlines :: "string list \<Rightarrow> string" where
  "unlines ls = concat (map (\<lambda>l. l @ [CHR 0x0A]) ls)"

text \<open>The field names of the call of \<^verbatim>\<open>CSVDictParser\<close> in \<^verbatim>\<open>_make_datapipe\<close>.\<close>

abbreviation fieldnames_of_call :: "string list" where
  "fieldnames_of_call \<equiv> [''image_id'', ''label'', ''species'']"

section \<open>Properties\<close>

subsection \<open>Paths\<close>

lemma split_sep_nonempty: "split_sep sep s \<noteq> []"
  by (induction s) (auto split: list.splits)

lemma split_sep_append:
  "split_sep sep (a @ sep # b) = split_sep sep a @ split_sep sep b"
proof (induction a)
  case Nil
  show ?case by simp
next
  case (Cons c a)
  obtain w ws where ws: "split_sep sep a = w # ws"
    using split_sep_nonempty [of sep a] by (cases "split_sep sep a") auto
  show ?case using Cons ws by simp
qed

lemma path_parts_slash:
  "path_parts (a @ CHR ''/'' # b) = path_parts a @ path_parts b"
  by (simp add: path_parts_def split_sep_append)

lemma path_name_slash:
  "path_parts b \<noteq> [] \<Longrightarrow> path_name (a @ CHR ''/'' # b) = path_name b"
  by (cases "path_parts b" rule: rev_cases) (simp_all add: path_name_def path_parts_slash)

lemma path_parent_name_slash:
  "path_parts b = ps @ [d, n] \<Longrightarrow> path_parent_name (a @ CHR ''/'' # b) = d"
  by (simp add: path_parent_name_def path_parts_slash)

lemma rfind_bounds: "- 1 \<le> rfind ch s \<and> rfind ch s < int (length s)"
  by (induction s) (auto simp: Let_def)

lemma rfind_append:
  "rfind ch (a @ b) = (if 0 \<le> rfind ch b then int (length a) + rfind ch b else rfind ch a)"
  using rfind_bounds [of ch b] by (induction a) (auto simp: Let_def)

lemma name_suffix_jpg:
  "name_suffix n = ''.jpg'' \<longleftrightarrow> (\<exists>stem. stem \<noteq> [] \<and> n = stem @ ''.jpg'')"
proof
  assume h: "name_suffix n = ''.jpg''"
  define i where "i = rfind (CHR ''.'') n"
  from h have i: "0 < i" "i < int (length n) - 1" and d: "drop (nat i) n = ''.jpg''"
    by (auto simp: name_suffix_def Let_def i_def split: if_splits)
  have "n = take (nat i) n @ ''.jpg''"
    using d append_take_drop_id [of "nat i" n] by simp
  moreover have "take (nat i) n \<noteq> []"
    using i by auto
  ultimately show "\<exists>stem. stem \<noteq> [] \<and> n = stem @ ''.jpg''"
    by blast
next
  assume "\<exists>stem. stem \<noteq> [] \<and> n = stem @ ''.jpg''"
  then obtain stem where s: "stem \<noteq> []" "n = stem @ ''.jpg''"
    by blast
  have "rfind (CHR ''.'') n = int (length stem)"
    unfolding s(2) by (subst rfind_append) (simp add: Let_def)
  then show "name_suffix n = ''.jpg''"
    using s by (simp add: name_suffix_def Let_def)
qed

subsection \<open>Paths below a directory\<close>

lemma path_parts_dir:
  assumes "d = [] \<or> last d = CHR ''/''"
  shows "path_parts (d @ b) = path_parts d @ path_parts b"
proof (cases d rule: rev_cases)
  case Nil
  then show ?thesis by (simp add: path_parts_def)
next
  case (snoc ys y)
  with assms have y: "y = CHR ''/''" by simp
  have "path_parts (ys @ CHR ''/'' # b) = path_parts ys @ path_parts b"
    and "path_parts (ys @ CHR ''/'' # []) = path_parts ys @ path_parts []"
    by (rule path_parts_slash)+
  then show ?thesis using snoc y by (simp add: path_parts_def)
qed

lemma path_name_dir:
  "d = [] \<or> last d = CHR ''/'' \<Longrightarrow> path_parts b \<noteq> [] \<Longrightarrow> path_name (d @ b) = path_name b"
  by (cases "path_parts b" rule: rev_cases) (simp_all add: path_name_def path_parts_dir)

lemma path_parent_name_dir:
  "d = [] \<or> last d = CHR ''/'' \<Longrightarrow> path_parts b = ps @ [p, n] \<Longrightarrow> path_parent_name (d @ b) = p"
  by (simp add: path_parent_name_def path_parts_dir)

lemma endswith_append: "endswith (d @ s) s"
  by (simp add: endswith_def)

subsection \<open>Traces\<close>

lemma yielded_of_list: "yielded (of_list xs) = xs"
  by (induction xs) simp_all

lemma raised_of_list: "raised (of_list xs) = None"
  by (induction xs) simp_all

lemma chain_of_list: "chain (of_list xs) (of_list ys) = of_list (xs @ ys)"
  by (induction xs) simp_all

lemma chain_Stop: "chain dp Stop = dp"
  by (induction dp) simp_all

lemma Mapper_sound:
  "y \<in> set (yielded (Mapper dp f)) \<Longrightarrow> \<exists>x \<in> set (yielded dp). f x = Inr y"
  by (induction dp) (auto split: sum.splits)



lemma Mapper_progress:
  "x \<in> set (yielded dp) \<Longrightarrow> raised (Mapper dp f) = None
     \<Longrightarrow> \<exists>y. f x = Inr y \<and> y \<in> set (yielded (Mapper dp f))"
  by (induction dp) (auto split: sum.splits)

subsection \<open>The pipeline, stage by stage\<close>

text \<open>The definitions that evaluate the parser and the pipeline on a concrete input.\<close>

lemmas csv_eval =
  parse_process_char_def start_field_def end_of_line_def is_newline_def parse_add_char_def
  parse_save_field_def parse_reset_def field_limit_def row_dict_def

lemmas pipeline_eval =
  make_datapipe_def Filter_def Demultiplexer_def classify_anns_def path_parent_name_def
  path_parts_def filter_images_def path_suffix_def path_name_def name_suffix_def
  path_comparator_def path_accessor_def filter_segmentations_def startswith_def
  csv_eval hint_sharding_def hint_shuffling_def IterKeyZipper_def
  getitem_def getitem_0_def dict_getitem_def path_stem_def name_stem_def
  collate_and_decode_sample_def decode_classification_data_def int_of_value_def py_int_def
  strip_def is_space_def digits_def digit_val_def list_getitem_def apply_decoder_def Let_def

subsection \<open>The csv reader on plain lines\<close>

lemma readlines_line:
  "CHR 0x0A \<notin> set l \<Longrightarrow> readlines (l @ CHR 0x0A # rest) = (l @ [CHR 0x0A]) # readlines rest"
  by (induction l) auto

lemma readlines_last:
  "CHR 0x0A \<notin> set l \<Longrightarrow> readlines l = (if l = [] then [] else [l])"
  by (induction l) auto

lemma readlines_unlines:
  "\<forall>l \<in> set ls. CHR 0x0A \<notin> set l \<Longrightarrow> CHR 0x0A \<notin> set l' \<Longrightarrow>
   readlines (unlines ls @ l') = map (\<lambda>l. l @ [CHR 0x0A]) ls @ (if l' = [] then [] else [l'])"
  by (induction ls) (simp_all add: unlines_def readlines_last readlines_line)

text \<open>
  The reader inside an unquoted field, up to the end of the line: the fields are those
  of \<^verbatim>\<open>str.split\<close> at the delimiter.
\<close>

lemma parse_line_fields:
  assumes "\<forall>c \<in> set b. unquoted c" and "length (field self) + length b \<le> field_limit"
    and "state self = START_FIELD \<or> state self = IN_FIELD"
    and "e = [] \<or> e = [CHR 0x0A]"
  shows "parse_line delimiter self (b @ e) =
     Inr \<lparr>state = START_RECORD,
          parsed_fields = parsed_fields self
            @ (field self @ hd (split_sep delimiter b)) # tl (split_sep delimiter b),
          field = []\<rparr>"
  using assms
proof (induction b arbitrary: self)
  case Nil
  then show ?case
    by (auto simp: csv_eval)
next
  case (Cons c b)
  obtain w ws where ws: "split_sep delimiter b = w # ws"
    using split_sep_nonempty [of delimiter b] by (cases "split_sep delimiter b") auto
  from Cons.prems have c: "unquoted c" and b: "\<forall>c \<in> set b. unquoted c"
    and len: "length (field self) < field_limit" by simp_all
  show ?case
  proof (cases "c = delimiter")
    case True
    let ?self = "(parse_save_field self)\<lparr>state := START_FIELD\<rparr>"
    have step: "parse_process_char delimiter self (Some c) = Inr ?self"
      using Cons.prems(3) c True by (auto simp: parse_process_char_def start_field_def
          is_newline_def unquoted_def)
    have "parse_line delimiter ?self (b @ e) =
       Inr \<lparr>state = START_RECORD,
            parsed_fields = parsed_fields ?self
              @ (field ?self @ hd (split_sep delimiter b)) # tl (split_sep delimiter b),
            field = []\<rparr>"
      using Cons.prems b by (intro Cons.IH) (simp_all add: parse_save_field_def)
    then show ?thesis
      using True step ws by (simp add: parse_save_field_def)
  next
    case False
    let ?self = "self\<lparr>field := field self @ [c], state := IN_FIELD\<rparr>"
    have step: "parse_process_char delimiter self (Some c) = Inr ?self"
      using Cons.prems(3) c False len
      by (auto simp: parse_process_char_def start_field_def is_newline_def unquoted_def
          parse_add_char_def)
    have "parse_line delimiter ?self (b @ e) =
       Inr \<lparr>state = START_RECORD,
            parsed_fields = parsed_fields ?self
              @ (field ?self @ hd (split_sep delimiter b)) # tl (split_sep delimiter b),
            field = []\<rparr>"
      using Cons.prems b by (intro Cons.IH) simp_all
    then show ?thesis
      using False step ws by simp
  qed
qed

lemma parse_line_record:
  assumes "\<forall>c \<in> set l. unquoted c" and "length l \<le> field_limit" and "l \<noteq> []"
    and "e = [] \<or> e = [CHR 0x0A]"
  shows "parse_line delimiter parse_reset (l @ e) =
     Inr \<lparr>state = START_RECORD, parsed_fields = split_sep delimiter l, field = []\<rparr>"
proof -
  obtain c b where l: "l = c # b" using assms(3) by (cases l) auto
  let ?self = "parse_reset\<lparr>state := START_FIELD\<rparr>"
  have c: "unquoted c" using assms(1) l by simp
  have "parse_process_char delimiter parse_reset (Some c)
      = parse_process_char delimiter ?self (Some c)"
    using c by (simp add: csv_eval unquoted_def)
  then have "parse_line delimiter parse_reset (l @ e) = parse_line delimiter ?self (l @ e)"
    by (simp add: l)
  also have "\<dots> = Inr \<lparr>state = START_RECORD,
          parsed_fields = parsed_fields ?self
            @ (field ?self @ hd (split_sep delimiter l)) # tl (split_sep delimiter l),
          field = []\<rparr>"
    using assms by (intro parse_line_fields) (simp_all add: parse_reset_def)
  finally show ?thesis
    using split_sep_nonempty [of delimiter l] by (simp add: parse_reset_def)
qed

lemma parse_line_blank:
  "parse_line delimiter parse_reset [CHR 0x0A] =
     Inr \<lparr>state = START_RECORD, parsed_fields = [], field = []\<rparr>"
  by (simp add: csv_eval)

lemma csv_reader_last:
  assumes "\<forall>c \<in> set l. unquoted c" and "length l \<le> field_limit"
  shows "DictReader fieldnames (csv_reader delimiter parse_reset (if l = [] then [] else [l]))
     = of_list (map (\<lambda>l. row_dict fieldnames (split_sep delimiter l)) (filter (\<lambda>l. l \<noteq> []) [l]))"
  using parse_line_record [OF assms, where e = "[]" and delimiter = delimiter]
    split_sep_nonempty [of delimiter l]
  by (simp add: parse_reset_def)

lemma csv_reader_lines:
  assumes "\<forall>l \<in> set ls. (\<forall>c \<in> set l. unquoted c) \<and> length l \<le> field_limit"
    and "(\<forall>c \<in> set l'. unquoted c) \<and> length l' \<le> field_limit"
  shows "DictReader fieldnames (csv_reader delimiter parse_reset
            (map (\<lambda>l. l @ [CHR 0x0A]) ls @ (if l' = [] then [] else [l'])))
     = of_list (map (\<lambda>l. row_dict fieldnames (split_sep delimiter l))
         (filter (\<lambda>l. l \<noteq> []) (ls @ [l'])))"
  using assms
proof (induction ls)
  case Nil
  then show ?case using csv_reader_last [of l' fieldnames delimiter] by simp
next
  case (Cons l ls)
  have "parse_line delimiter parse_reset (l @ [CHR 0x0A]) =
     Inr \<lparr>state = START_RECORD,
          parsed_fields = (if l = [] then [] else split_sep delimiter l), field = []\<rparr>"
  proof (cases "l = []")
    case True
    then show ?thesis by (simp add: parse_line_blank del: parse_line.simps)
  next
    case False
    then show ?thesis
      using Cons.prems parse_line_record [of l "[CHR 0x0A]" delimiter] by simp
  qed
  then show ?case
    using Cons split_sep_nonempty [of delimiter l] by (simp del: parse_line.simps)
qed

subsection \<open>The classification list\<close>

lemma plain_unquoted: "plain l \<Longrightarrow> (\<forall>c \<in> set l. unquoted c) \<and> length l \<le> field_limit"
  by (simp add: plain_def)

lemma plain_no_newline: "plain l \<Longrightarrow> CHR 0x0A \<notin> set l"
  by (auto simp: plain_def unquoted_def)

lemma CSVDictParser_plain:
  assumes "\<forall>l \<in> set ls. plain l" and "plain l'"
  shows "CSVDictParser [(p, unlines ls @ l')] fieldnames delimiter
     = of_list (map (\<lambda>l. row_dict fieldnames (split_sep delimiter l))
         (filter (\<lambda>l. l \<noteq> []) (ls @ [l'])))"
proof -
  have "readlines (unlines ls @ l')
      = map (\<lambda>l. l @ [CHR 0x0A]) ls @ (if l' = [] then [] else [l'])"
    using assms by (intro readlines_unlines) (simp_all add: plain_no_newline)
  moreover have "DictReader fieldnames (csv_reader delimiter parse_reset
            (map (\<lambda>l. l @ [CHR 0x0A]) ls @ (if l' = [] then [] else [l'])))
     = of_list (map (\<lambda>l. row_dict fieldnames (split_sep delimiter l))
         (filter (\<lambda>l. l \<noteq> []) (ls @ [l'])))"
    using assms by (intro csv_reader_lines) (auto dest: plain_unquoted)
  ultimately show ?thesis
    by (simp add: chain_Stop)
qed

lemma classification_rows_file:
  "classify_anns (p, text) = Some 0 \<Longrightarrow> path_name p = split config @ ''.txt''
     \<Longrightarrow> classification_rows config [(p, text)]
           = CSVDictParser [(p, text)] fieldnames_of_call (CHR '' '')"
  by (simp add: classification_rows_def Demultiplexer_def Filter_def path_comparator_def
      path_accessor_def)

lemma row_dict_one:
  "row_dict fieldnames_of_call [a] = [''image_id'' \<mapsto> Some a, ''label'' \<mapsto> None, ''species'' \<mapsto> None]"
  by (simp add: row_dict_def eval_nat_numeral)

lemma row_dict_two:
  "row_dict fieldnames_of_call [a, b]
     = [''image_id'' \<mapsto> Some a, ''label'' \<mapsto> Some b, ''species'' \<mapsto> None]"
  by (simp add: row_dict_def eval_nat_numeral)

lemma row_dict_more:
  "row_dict fieldnames_of_call (a # b # c # rest)
     = [''image_id'' \<mapsto> Some a, ''label'' \<mapsto> Some b, ''species'' \<mapsto> Some c]"
  by (simp add: row_dict_def)

subsection \<open>The join\<close>



















section \<open>The claims\<close>

text \<open>
  C1 (end to end). The pipeline for the split \<^verbatim>\<open>trainval\<close> with no decoder, on the
  image entry \<^verbatim>\<open>catA.jpg\<close> and the two annotation entries
  \<^verbatim>\<open>annotations/trainval.txt\<close>, holding the single line \<^verbatim>\<open>catA 1 1 1\<close>, and
  \<^verbatim>\<open>trimaps/catA.png\<close>, in either order and each below any directory, yields
  exactly one sample and ends without an exception: the sample's image path ends with
  \<^verbatim>\<open>catA.jpg\<close>, its segmentation path with \<^verbatim>\<open>catA.png\<close>, its species is
  \<^verbatim>\<open>cat\<close>, its label is the index 0 with the first category, and its image and
  segmentation are the raw buffers. The category table is not part of the sources: it is
  any non-empty table.
\<close>

theorem single_sample:
  assumes cats: "categories \<noteq> []"
    and dirs: "\<forall>d \<in> {d1, d2, d3}. d = [] \<or> last d = CHR ''/''"
    and content: "content = ''catA 1 1 1'' \<or> content = ''catA 1 1 1\<newline>''"
    and anns: "anns = [(d1 @ ''annotations/trainval.txt'', content), (d2 @ ''trimaps/catA.png'', seg)]
             \<or> anns = [(d2 @ ''trimaps/catA.png'', seg), (d1 @ ''annotations/trainval.txt'', content)]"
  shows "make_datapipe categories ([(d3 @ ''catA.jpg'', img)], anns) \<lparr>split = ''trainval''\<rparr> None
           = Yield \<lparr>label = \<lparr>index = 0, category = hd categories\<rparr>, species = ''cat'',
                   segmentation_path = d2 @ ''trimaps/catA.png'', segmentation = Raw seg,
                   image_path = d3 @ ''catA.jpg'', image = Raw img\<rparr> Stop
         \<and> endswith (d3 @ ''catA.jpg'') ''catA.jpg''
         \<and> endswith (d2 @ ''trimaps/catA.png'') ''catA.png''"
proof -
  from dirs have d1: "d1 = [] \<or> last d1 = CHR ''/''" and d2: "d2 = [] \<or> last d2 = CHR ''/''"
    and d3: "d3 = [] \<or> last d3 = CHR ''/''"
    by simp_all
  have pa: "path_name (d1 @ ''annotations/trainval.txt'') = ''trainval.txt''"
    "path_parent_name (d1 @ ''annotations/trainval.txt'') = ''annotations''"
    by (simp_all add: path_name_def path_parent_name_def path_parts_dir [OF d1])
      (simp_all add: path_parts_def)
  have ps: "path_name (d2 @ ''trimaps/catA.png'') = ''catA.png''"
    "path_parent_name (d2 @ ''trimaps/catA.png'') = ''trimaps''"
    by (simp_all add: path_name_def path_parent_name_def path_parts_dir [OF d2])
      (simp_all add: path_parts_def)
  have pi: "path_name (d3 @ ''catA.jpg'') = ''catA.jpg''"
    by (simp add: path_name_def path_parts_dir [OF d3]) (simp add: path_parts_def)
  have rows: "CSVDictParser [(p, content)] [''image_id'', ''label'', ''species''] (CHR '' '')
      = Yield [''image_id'' \<mapsto> Some ''catA'', ''label'' \<mapsto> Some ''1'',
               ''species'' \<mapsto> Some ''1''] Stop" for p
    using content by (auto simp: csv_eval)
  have cat: "list_getitem categories 0 = Inr (hd categories)"
    using cats by (cases categories) (simp_all add: list_getitem_def)
  have run: "make_datapipe categories ([(d3 @ ''catA.jpg'', img)], anns) \<lparr>split = ''trainval''\<rparr> None
           = Yield \<lparr>label = \<lparr>index = 0, category = hd categories\<rparr>, species = ''cat'',
                   segmentation_path = d2 @ ''trimaps/catA.png'', segmentation = Raw seg,
                   image_path = d3 @ ''catA.jpg'', image = Raw img\<rparr> Stop"
    using anns
    by (auto simp: make_datapipe_def Filter_def Demultiplexer_def classify_anns_def
        filter_images_def filter_segmentations_def path_suffix_def path_stem_def
        path_comparator_def path_accessor_def pa ps pi rows cat
        name_suffix_def name_stem_def startswith_def IterKeyZipper_def
        hint_sharding_def hint_shuffling_def getitem_def getitem_0_def dict_getitem_def
        collate_and_decode_sample_def decode_classification_data_def int_of_value_def
        py_int_def strip_def is_space_def digits_def digit_val_def apply_decoder_def Let_def
        simp del: CSVDictParser.simps)
  have "endswith (d2 @ ''trimaps/catA.png'') ''catA.png''"
    using endswith_append [of "d2 @ ''trimaps/''" "''catA.png''"] by simp
  with run endswith_append [of d3 "''catA.jpg''"] show ?thesis
    by simp
qed

theorem single_sample_witness:
  "make_datapipe [''Abyssinian'', ''Bengal'']
     ([(''images/catA.jpg'', ''IMG'')],
      [(''annotations/trainval.txt'', ''catA 1 1 1''), (''annotations/trimaps/catA.png'', ''SEG'')])
     \<lparr>split = ''trainval''\<rparr> (None :: (buffer \<Rightarrow> error + unit) option)
   = Yield \<lparr>label = \<lparr>index = 0, category = ''Abyssinian''\<rparr>, species = ''cat'',
           segmentation_path = ''annotations/trimaps/catA.png'', segmentation = Raw ''SEG'',
           image_path = ''images/catA.jpg'', image = Raw ''IMG''\<rparr> Stop"
proof -
  have cats: "[''Abyssinian'', ''Bengal''] \<noteq> []"
    and dirs: "\<forall>d \<in> {[], ''annotations/'', ''images/''}. d = [] \<or> last d = CHR ''/''"
    and content: "''catA 1 1 1'' = ''catA 1 1 1'' \<or> ''catA 1 1 1'' = ''catA 1 1 1\<newline>''"
    by simp_all
  from single_sample [where seg = "''SEG''" and img = "''IMG''",
      OF cats dirs content disjI1 [OF refl], THEN conjunct1]
  show ?thesis
    by simp
qed

lemma Demultiplexer_drop_none:
  "Demultiplexer (filter (\<lambda>d. classifier_fn d \<noteq> None) dp) classifier_fn
     = Demultiplexer dp classifier_fn"
  by (auto simp: Demultiplexer_def intro: filter_cong)

text \<open>
  C6 (annotation classifier). The classifier returns 0 when the name of the path's
  parent directory is \<^verbatim>\<open>annotations\<close>, 1 when it is \<^verbatim>\<open>trimaps\<close> and
  \<^verbatim>\<open>None\<close> for every other name; it reads the path only, not the buffer; and the
  entries it tags \<^verbatim>\<open>None\<close> are dropped: the pipeline yields the same result, samples
  or exception, with and without them.
\<close>

theorem annotation_classifier:
  "classify_anns data =
     (if path_parent_name (fst data) = ''annotations'' then Some 0
      else if path_parent_name (fst data) = ''trimaps'' then Some 1
      else None)
   \<and> classify_anns (p, b) = classify_anns (p, b')
   \<and> make_datapipe categories (images, filter (\<lambda>d. classify_anns d \<noteq> None) anns) config decoder
       = make_datapipe categories (images, anns) config decoder"
proof (intro conjI)
  show "classify_anns data =
     (if path_parent_name (fst data) = ''annotations'' then Some 0
      else if path_parent_name (fst data) = ''trimaps'' then Some 1
      else None)"
    by (simp add: classify_anns_def)
  show "classify_anns (p, b) = classify_anns (p, b')"
    by (simp add: classify_anns_def)
  show "make_datapipe categories (images, filter (\<lambda>d. classify_anns d \<noteq> None) anns) config decoder
       = make_datapipe categories (images, anns) config decoder"
    unfolding make_datapipe_def prod.case Demultiplexer_drop_none ..
qed

theorem annotation_classifier_witness:
  "classify_anns (''annotations/trainval.txt'', ''catA 1 1 1'') = Some 0
   \<and> classify_anns (''annotations/trimaps/catA.png'', ''SEG'') = Some 1
   \<and> classify_anns (''annotations/README'', ''text'') = Some 0
   \<and> classify_anns (''annotations/xmls/catA.xml'', ''XML'') = None"
proof -
  have "path_parent_name ''annotations/trainval.txt'' = ''annotations''"
    "path_parent_name ''annotations/trimaps/catA.png'' = ''trimaps''"
    "path_parent_name ''annotations/README'' = ''annotations''"
    "path_parent_name ''annotations/xmls/catA.xml'' = ''xmls''"
    by (simp_all add: path_parent_name_def path_parts_def)
  then show ?thesis
    using annotation_classifier [THEN conjunct1, of "(''annotations/trainval.txt'', ''catA 1 1 1'')"]
      annotation_classifier [THEN conjunct1, of "(''annotations/trimaps/catA.png'', ''SEG'')"]
      annotation_classifier [THEN conjunct1, of "(''annotations/README'', ''text'')"]
      annotation_classifier [THEN conjunct1, of "(''annotations/xmls/catA.xml'', ''XML'')"]
    by simp
qed

text \<open>
  C5 (image filter), as amended. The filter accepts an entry if and only if the name of
  its path (the last part, as \<^verbatim>\<open>pathlib\<close> reads it) is a non-empty stem followed by
  \<^verbatim>\<open>.jpg\<close>, in this case exactly.
\<close>

theorem image_filter_name:
  "filter_images data \<longleftrightarrow> (\<exists>stem. stem \<noteq> [] \<and> path_name (fst data) = stem @ ''.jpg'')"
  by (simp add: filter_images_def path_suffix_def name_suffix_jpg)

theorem image_filter_name_witness:
  "filter_images (''images/catA.jpg'', ''IMG'') \<and> \<not> filter_images (''images/catA.JPG'', ''IMG'')
   \<and> \<not> filter_images (''images/catA.jpg.txt'', ''IMG'')"
proof -
  have "path_name (fst (''images/catA.jpg'', ''IMG'')) = ''catA'' @ ''.jpg''"
    by (simp add: path_name_def path_parts_def)
  then have 1: "filter_images (''images/catA.jpg'', ''IMG'')"
    using image_filter_name [of "(''images/catA.jpg'', ''IMG'')"] by blast
  have "path_name (fst (''images/catA.JPG'', ''IMG'')) = ''catA.JPG''"
    by (simp add: path_name_def path_parts_def)
  then have 2: "\<not> filter_images (''images/catA.JPG'', ''IMG'')"
    using image_filter_name [of "(''images/catA.JPG'', ''IMG'')"] by auto
  have "path_name (fst (''images/catA.jpg.txt'', ''IMG'')) = ''catA.jpg.txt''"
    by (simp add: path_name_def path_parts_def)
  then have 3: "\<not> filter_images (''images/catA.jpg.txt'', ''IMG'')"
    using image_filter_name [of "(''images/catA.jpg.txt'', ''IMG'')"] by auto
  from 1 2 3 show ?thesis by simp
qed

text \<open>
  The claim as stated fails: the path \<^verbatim>\<open>images/.jpg\<close> ends in \<^verbatim>\<open>.jpg\<close>, yet its
  name \<^verbatim>\<open>.jpg\<close> has no suffix for \<^verbatim>\<open>pathlib\<close> and the filter rejects the entry.
\<close>

theorem image_filter_suffix_counterexample:
  "endswith ''images/.jpg'' ''.jpg'' \<and> \<not> filter_images (''images/.jpg'', ''IMG'')"
  by (simp add: endswith_def filter_images_def path_suffix_def path_name_def path_parts_def
      name_suffix_def Let_def)

lemma startswith_dot: "startswith s ''.'' \<longleftrightarrow> (\<exists>rest. s = CHR ''.'' # rest)"
  by (cases s) (auto simp: startswith_def)

text \<open>
  C8 (segmentation filter). The filter rejects an entry if and only if the first
  character of the name of its path is a dot; \<^verbatim>\<open>Filter\<close> keeps all other entries.
\<close>

theorem segmentation_filter_hidden:
  "(\<not> filter_segmentations data) = (\<exists>rest. path_name (fst data) = CHR ''.'' # rest)
   \<and> set (Filter dp filter_segmentations)
       = {d \<in> set dp. \<forall>rest. path_name (fst d) \<noteq> CHR ''.'' # rest}"
  by (auto simp: filter_segmentations_def startswith_dot Filter_def)

theorem segmentation_filter_hidden_witness:
  "\<not> filter_segmentations (''annotations/trimaps/._catA.png'', ''SEG'')
   \<and> filter_segmentations (''annotations/trimaps/catA.png'', ''SEG'')"
proof -
  have "path_name (fst (''annotations/trimaps/._catA.png'', ''SEG'')) = CHR ''.'' # ''_catA.png''"
    by (simp add: path_name_def path_parts_def)
  then have 1: "\<not> filter_segmentations (''annotations/trimaps/._catA.png'', ''SEG'')"
    using segmentation_filter_hidden [of "(''annotations/trimaps/._catA.png'', ''SEG'')" "[]"]
    by blast
  have "path_name (fst (''annotations/trimaps/catA.png'', ''SEG'')) = ''catA.png''"
    by (simp add: path_name_def path_parts_def)
  then have 2: "filter_segmentations (''annotations/trimaps/catA.png'', ''SEG'')"
    using segmentation_filter_hidden [of "(''annotations/trimaps/catA.png'', ''SEG'')" "[]"]
    by auto
  from 1 2 show ?thesis by simp
qed

subsection \<open>Label decoding\<close>




lemma collate_decode_error:
  "decode_classification_data categories data = Inl e
     \<Longrightarrow> collate_and_decode_sample categories decoder ((data, seg), img) = Inl e"
  by (cases seg; cases img) (simp add: collate_and_decode_sample_def)






subsection \<open>Species\<close>

lemma decode_species:
  assumes "decode_classification_data categories data = Inr d"
  shows "\<exists>s. data ''species'' = Some s \<and> snd d = (if s = Some ''1'' then ''cat'' else ''dog'')"
proof -
  note defs = decode_classification_data_def dict_getitem_def Let_def
  from assms obtain l where l: "data ''label'' = Some l"
    by (cases "data ''label''") (simp_all add: defs)
  from assms l obtain v where v: "int_of_value l = Inr v"
    by (cases "int_of_value l") (simp_all add: defs)
  from assms l v obtain c where c: "list_getitem categories (v - 1) = Inr c"
    by (cases "list_getitem categories (v - 1)") (simp_all add: defs)
  from assms l v c obtain s where s: "data ''species'' = Some s"
    by (cases "data ''species''") (simp_all add: defs)
  from assms l v c s have "snd d = (if s = Some ''1'' then ''cat'' else ''dog'')"
    by (auto simp: defs)
  with s show ?thesis by blast
qed

lemma collate_species:
  assumes "collate_and_decode_sample categories decoder ((data, seg), img) = Inr smp"
  shows "\<exists>s. data ''species'' = Some s
           \<and> species smp = (if s = Some ''1'' then ''cat'' else ''dog'')"
proof -
  obtain sp sb where seg: "seg = (sp, sb)" by (cases seg)
  obtain ip ib where img: "img = (ip, ib)" by (cases img)
  from assms obtain d where d: "decode_classification_data categories data = Inr d"
    by (cases "decode_classification_data categories data")
      (simp_all add: collate_and_decode_sample_def seg img)
  from assms d have "species smp = snd d"
    by (auto simp: collate_and_decode_sample_def seg img split: sum.splits)
  with decode_species [OF d] show ?thesis by simp
qed

lemma decode_error_species:
  "(decode_classification_data categories (data(''species'' \<mapsto> s)) = Inl e)
     = (decode_classification_data categories (data(''species'' \<mapsto> s')) = Inl e)"
proof (cases "data ''label''")
  case None
  then show ?thesis
    by (simp add: decode_classification_data_def dict_getitem_def)
next
  case (Some l)
  show ?thesis
  proof (cases "int_of_value l")
    case (Inl a)
    with Some show ?thesis
      by (simp add: decode_classification_data_def dict_getitem_def)
  next
    case (Inr v)
    show ?thesis
      using Some Inr
      by (cases "list_getitem categories (v - 1)")
        (simp_all add: decode_classification_data_def dict_getitem_def Let_def)
  qed
qed

text \<open>
  C7 (species mapping). The decoded species is \<^verbatim>\<open>cat\<close> when the species field is the
  string \<^verbatim>\<open>1\<close> and \<^verbatim>\<open>dog\<close> for every other value, in the decoder's result and
  in the assembled sample; whether the decoder raises does not depend on the species
  code, so no code is an error; and the species of every sample the pipeline yields is
  \<^verbatim>\<open>cat\<close> or \<^verbatim>\<open>dog\<close>.
\<close>

theorem species_mapping:
  "(decode_classification_data categories data = Inr d \<longrightarrow>
      (\<exists>s. data ''species'' = Some s \<and> snd d = (if s = Some ''1'' then ''cat'' else ''dog'')))
   \<and> (collate_and_decode_sample categories decoder ((data, seg), img) = Inr smp \<longrightarrow>
      (\<exists>s. data ''species'' = Some s
           \<and> species smp = (if s = Some ''1'' then ''cat'' else ''dog'')))
   \<and> ((decode_classification_data categories (data(''species'' \<mapsto> s)) = Inl e)
        = (decode_classification_data categories (data(''species'' \<mapsto> s')) = Inl e))
   \<and> (\<forall>smp \<in> set (yielded (make_datapipe categories (images, anns) config decoder)).
        species smp = ''cat'' \<or> species smp = ''dog'')"
proof (intro conjI impI ballI)
  show "(decode_classification_data categories (data(''species'' \<mapsto> s)) = Inl e)
        = (decode_classification_data categories (data(''species'' \<mapsto> s')) = Inl e)"
    by (rule decode_error_species)
next
  assume "decode_classification_data categories data = Inr d"
  then show "\<exists>s. data ''species'' = Some s
      \<and> snd d = (if s = Some ''1'' then ''cat'' else ''dog'')"
    by (rule decode_species)
next
  assume "collate_and_decode_sample categories decoder ((data, seg), img) = Inr smp"
  then show "\<exists>s. data ''species'' = Some s
      \<and> species smp = (if s = Some ''1'' then ''cat'' else ''dog'')"
    by (rule collate_species)
next
  fix smp
  assume "smp \<in> set (yielded (make_datapipe categories (images, anns) config decoder))"
  then obtain dp where
    "smp \<in> set (yielded (Mapper dp (collate_and_decode_sample categories decoder)))"
    by (simp add: make_datapipe_def Let_def)
  from Mapper_sound [OF this] obtain t where
    t: "collate_and_decode_sample categories decoder t = Inr smp"
    by blast
  obtain r sg im where "t = ((r, sg), im)"
    by (cases t) auto
  with t collate_species [of categories decoder r sg im smp]
  show "species smp = ''cat'' \<or> species smp = ''dog''"
    by (auto split: if_splits)
qed

theorem species_mapping_witness:
  "decode_classification_data [''Abyssinian'']
      [''image_id'' \<mapsto> Some ''catA'', ''label'' \<mapsto> Some ''1'', ''species'' \<mapsto> Some ''7'']
     = Inr (\<lparr>index = 0, category = ''Abyssinian''\<rparr>, ''dog'')
   \<and> (\<exists>s. [''image_id'' \<mapsto> Some ''catA'', ''label'' \<mapsto> Some ''1'', ''species'' \<mapsto> Some ''7'']
            ''species'' = Some s
          \<and> snd (\<lparr>index = 0, category = ''Abyssinian''\<rparr>, ''dog'')
              = (if s = Some ''1'' then ''cat'' else ''dog''))"
proof -
  have run: "decode_classification_data [''Abyssinian'']
      [''image_id'' \<mapsto> Some ''catA'', ''label'' \<mapsto> Some ''1'', ''species'' \<mapsto> Some ''7'']
     = Inr (\<lparr>index = 0, category = ''Abyssinian''\<rparr>, ''dog'')"
    by (simp add: decode_classification_data_def dict_getitem_def list_getitem_def py_int_def
        int_of_value_def strip_def is_space_def digits_def digit_val_def Let_def)
  from species_mapping [THEN conjunct1, THEN mp, OF run] run show ?thesis
    by (rule conjI [rotated])
qed

text \<open>
  C3 (classification list), as amended. A classification list whose lines are plain (no
  quote, carriage return or null character, ASCII, within the field limit) is read line
  by line; each line that is not empty is split at every single space, as
  \<^verbatim>\<open>str.split(" ")\<close> does, and gives one record; an empty line gives none. The
  parser raises nothing, whatever the number of fields: the first three fields are
  named \<^verbatim>\<open>image_id\<close>, \<^verbatim>\<open>label\<close>, \<^verbatim>\<open>species\<close>, a name without a field
  gets \<^verbatim>\<open>None\<close>, and fields after the third are not read. A record of one field
  makes the sample assembly raise \<^verbatim>\<open>TypeError\<close> (the label is \<^verbatim>\<open>None\<close>); a
  record of two fields raises nothing for its missing species, which reads as
  \<^verbatim>\<open>dog\<close>.
\<close>

theorem classification_list_parsing:
  assumes lines: "\<forall>l \<in> set ls. plain l" and last_line: "plain l'"
    and entry: "classify_anns (p, unlines ls @ l') = Some 0"
    and name: "path_name p = split config @ ''.txt''"
  shows "classification_rows config [(p, unlines ls @ l')]
           = of_list (map (\<lambda>l. row_dict fieldnames_of_call (split_sep (CHR '' '') l))
                        (filter (\<lambda>l. l \<noteq> []) (ls @ [l'])))
       \<and> raised (classification_rows config [(p, unlines ls @ l')]) = None
       \<and> row_dict fieldnames_of_call [a]
           = [''image_id'' \<mapsto> Some a, ''label'' \<mapsto> None, ''species'' \<mapsto> None]
       \<and> collate_and_decode_sample categories decoder ((row_dict fieldnames_of_call [a], seg), img)
           = Inl TypeError
       \<and> row_dict fieldnames_of_call [a, b]
           = [''image_id'' \<mapsto> Some a, ''label'' \<mapsto> Some b, ''species'' \<mapsto> None]
       \<and> (\<forall>smp. collate_and_decode_sample categories decoder
                   ((row_dict fieldnames_of_call [a, b], seg), img) = Inr smp
               \<longrightarrow> species smp = ''dog'')
       \<and> row_dict fieldnames_of_call (a # b # c # rest)
           = [''image_id'' \<mapsto> Some a, ''label'' \<mapsto> Some b, ''species'' \<mapsto> Some c]"
proof -
  have rows: "classification_rows config [(p, unlines ls @ l')]
           = of_list (map (\<lambda>l. row_dict fieldnames_of_call (split_sep (CHR '' '') l))
                        (filter (\<lambda>l. l \<noteq> []) (ls @ [l'])))"
    unfolding classification_rows_file [OF entry name]
    using lines last_line by (rule CSVDictParser_plain)
  have "decode_classification_data categories (row_dict fieldnames_of_call [a]) = Inl TypeError"
    by (simp add: row_dict_one decode_classification_data_def dict_getitem_def int_of_value_def)
  then have one: "collate_and_decode_sample categories decoder
      ((row_dict fieldnames_of_call [a], seg), img) = Inl TypeError"
    by (rule collate_decode_error)
  have two: "\<forall>smp. collate_and_decode_sample categories decoder
                   ((row_dict fieldnames_of_call [a, b], seg), img) = Inr smp
               \<longrightarrow> species smp = ''dog''"
  proof (intro allI impI)
    fix smp
    assume "collate_and_decode_sample categories decoder
          ((row_dict fieldnames_of_call [a, b], seg), img) = Inr smp"
    from collate_species [OF this] show "species smp = ''dog''"
      by (simp add: row_dict_two)
  qed
  have ok: "raised (classification_rows config [(p, unlines ls @ l')]) = None"
    unfolding rows by (rule raised_of_list)
  show ?thesis
    by (intro conjI rows ok one two row_dict_one row_dict_two row_dict_more)
qed

theorem classification_list_parsing_witness:
  "classification_rows \<lparr>split = ''trainval''\<rparr>
     [(''annotations/trainval.txt'', ''catA 1 1 1\<newline>\<newline>catB  2\<newline>catC'')]
   = Yield [''image_id'' \<mapsto> Some ''catA'', ''label'' \<mapsto> Some ''1'', ''species'' \<mapsto> Some ''1'']
      (Yield [''image_id'' \<mapsto> Some ''catB'', ''label'' \<mapsto> Some [], ''species'' \<mapsto> Some ''2'']
        (Yield [''image_id'' \<mapsto> Some ''catC'', ''label'' \<mapsto> None, ''species'' \<mapsto> None] Stop))"
proof -
  have lines: "\<forall>l \<in> set [''catA 1 1 1'', [], ''catB  2'']. plain l" and last_line: "plain ''catC''"
    by (simp_all add: plain_def unquoted_def field_limit_def)
  have entry: "classify_anns (''annotations/trainval.txt'',
      unlines [''catA 1 1 1'', [], ''catB  2''] @ ''catC'') = Some 0"
    by (simp add: classify_anns_def path_parent_name_def path_parts_def)
  have name: "path_name ''annotations/trainval.txt'' = split \<lparr>split = ''trainval''\<rparr> @ ''.txt''"
    by (simp add: path_name_def path_parts_def)
  from classification_list_parsing [OF lines last_line entry name, THEN conjunct1]
  show ?thesis
    by (simp add: unlines_def row_dict_def)
qed

text \<open>
  The claim as stated fails: the line \<^verbatim>\<open>catA 1\<close> has two fields, yet the pipeline
  raises nothing and yields a sample for it, with the species \<^verbatim>\<open>dog\<close>.
\<close>

theorem classification_list_short_line_counterexample:
  "make_datapipe [''Abyssinian'', ''Bengal'']
     ([(''images/catA.jpg'', ''IMG'')],
      [(''annotations/trainval.txt'', ''catA 1\<newline>''), (''annotations/trimaps/catA.png'', ''SEG'')])
     \<lparr>split = ''trainval''\<rparr> (None :: (buffer \<Rightarrow> error + unit) option)
   = Yield \<lparr>label = \<lparr>index = 0, category = ''Abyssinian''\<rparr>, species = ''dog'',
           segmentation_path = ''annotations/trimaps/catA.png'', segmentation = Raw ''SEG'',
           image_path = ''images/catA.jpg'', image = Raw ''IMG''\<rparr> Stop"
  by (simp add: pipeline_eval)






end
